theory Spec2Isabelle
  imports Main "HOL-Library.Sublist"
begin

section \<open>JavaScript values and operators used by the pages\<close>

text \<open>
  Strings are byte lists holding the UTF-8 encoding of the JavaScript string. The pages only
  search for ASCII substrings and only concatenate, so working on bytes instead of UTF-16
  code units changes no result.

  A value that a promise rejects with (the \<open>error: any\<close> of a \<open>catch\<close>) is either a plain
  string, which is what \<open>invoke\<close> rejects with when a backend command returns an error
  message, or an \<open>Error\<close> object made by \<open>new Error(message)\<close>.
\<close>

datatype js_error = JsString string | JsError string

text \<open>\<open>String(error)\<close>: a string is itself; an \<open>Error\<close> object prints as its name, a colon and
  its message, or as its name alone when the message is empty.\<close>

fun String_of :: "js_error \<Rightarrow> string" where
  "String_of (JsString s) = s"
| "String_of (JsError m) = (if m = [] then ''Error'' else ''Error: '' @ m)"

text \<open>\<open>s.includes(sub)\<close>: \<open>sub\<close> occurs in \<open>s\<close> as a contiguous run; the empty string occurs
  in every string.\<close>

fun includes_js :: "string \<Rightarrow> string \<Rightarrow> bool" where
  "includes_js [] sub = (sub = [])"
| "includes_js (c # cs) sub = (prefix sub (c # cs) \<or> includes_js cs sub)"

text \<open>\<open>x || d\<close> for a field \<open>x\<close> that should be a string: the default \<open>d\<close> replaces a field that
  is absent (\<open>undefined\<close> or \<open>null\<close>, here \<open>None\<close>) or the empty string, the falsy values a
  string field can take.\<close>

definition or_default :: "string option \<Rightarrow> string \<Rightarrow> string" where
  "or_default x d = (case x of None \<Rightarrow> d | Some s \<Rightarrow> if s = [] then d else s)"

text \<open>The backend commands the pages call through \<open>invoke\<close>.\<close>

datatype command = get_certificates_cached | revoke_certificate string | cleanup_all

section \<open>pages/Certificates.tsx\<close>

subsection \<open>Data\<close>

record Certificate =
  name :: string
  certificateId :: string
  serialNumber :: string
  machineName :: string
  machineId :: string

text \<open>An entry as \<open>invoke\<close> delivers it, before validation: every field may be missing.\<close>

record RawCertificate =
  raw_name :: "string option"
  raw_certificateId :: "string option"
  raw_serialNumber :: "string option"
  raw_machineName :: "string option"
  raw_machineId :: "string option"

text \<open>The component's state: the two \<open>useState\<close> cells and the \<open>useRef\<close> guard.\<close>

record Certificates_state =
  certificates :: "Certificate list"
  loading :: bool
  loadingRef :: bool

definition Certificates_init :: Certificates_state where
  "Certificates_init = \<lparr>certificates = [], loading = False, loadingRef = False\<rparr>"

subsection \<open>Validation of the fetched list\<close>

text \<open>The callback of \<open>certs.map\<close>.\<close>

definition validate :: "RawCertificate \<Rightarrow> Certificate" where
  "validate cert =
     \<lparr>name = or_default (raw_name cert) ''Unknown'',
      certificateId = or_default (raw_certificateId cert) [],
      serialNumber = or_default (raw_serialNumber cert) [],
      machineName = or_default (raw_machineName cert) [],
      machineId = or_default (raw_machineId cert) []\<rparr>"

text \<open>The callback of \<open>.filter\<close>.\<close>

definition identified :: "Certificate \<Rightarrow> bool" where
  "identified cert \<longleftrightarrow> certificateId cert \<noteq> [] \<and> serialNumber cert \<noteq> []"

definition validated :: "RawCertificate list \<Rightarrow> Certificate list" where
  "validated certs = filter identified (map validate certs)"

subsection \<open>The message of the reclassified error\<close>

text \<open>In English: "Error parsing data from the Apple API (machineId)", then two line feeds.\<close>

definition detailedError_header :: string where
  "detailedError_header =
     [CHR 0xD0, CHR 0x9E, CHR 0xD1, CHR 0x88, CHR 0xD0, CHR 0xB8, CHR 0xD0, CHR 0xB1,
      CHR 0xD0, CHR 0xBA, CHR 0xD0, CHR 0xB0, CHR 0x20, CHR 0xD0, CHR 0xBF, CHR 0xD0,
      CHR 0xB0, CHR 0xD1, CHR 0x80, CHR 0xD1, CHR 0x81, CHR 0xD0, CHR 0xB8, CHR 0xD0,
      CHR 0xBD, CHR 0xD0, CHR 0xB3, CHR 0xD0, CHR 0xB0, CHR 0x20, CHR 0xD0, CHR 0xB4,
      CHR 0xD0, CHR 0xB0, CHR 0xD0, CHR 0xBD, CHR 0xD0, CHR 0xBD, CHR 0xD1, CHR 0x8B,
      CHR 0xD1, CHR 0x85, CHR 0x20, CHR 0xD0, CHR 0xBE, CHR 0xD1, CHR 0x82] @
     '' Apple API (machineId).'' @
     [CHR 0x0A, CHR 0x0A]"

text \<open>In English: "This is a known problem, which can arise from changes in the format of the Apple API", then two line feeds.\<close>

definition detailedError_known :: string where
  "detailedError_known =
     [CHR 0xD0, CHR 0xAD, CHR 0xD1, CHR 0x82, CHR 0xD0, CHR 0xBE, CHR 0x20, CHR 0xD0,
      CHR 0xB8, CHR 0xD0, CHR 0xB7, CHR 0xD0, CHR 0xB2, CHR 0xD0, CHR 0xB5, CHR 0xD1,
      CHR 0x81, CHR 0xD1, CHR 0x82, CHR 0xD0, CHR 0xBD, CHR 0xD0, CHR 0xB0, CHR 0xD1,
      CHR 0x8F, CHR 0x20, CHR 0xD0, CHR 0xBF, CHR 0xD1, CHR 0x80, CHR 0xD0, CHR 0xBE,
      CHR 0xD0, CHR 0xB1, CHR 0xD0, CHR 0xBB, CHR 0xD0, CHR 0xB5, CHR 0xD0, CHR 0xBC,
      CHR 0xD0, CHR 0xB0, CHR 0x2C, CHR 0x20, CHR 0xD0, CHR 0xBA, CHR 0xD0, CHR 0xBE,
      CHR 0xD1, CHR 0x82, CHR 0xD0, CHR 0xBE, CHR 0xD1, CHR 0x80, CHR 0xD0, CHR 0xB0,
      CHR 0xD1, CHR 0x8F, CHR 0x20, CHR 0xD0, CHR 0xBC, CHR 0xD0, CHR 0xBE, CHR 0xD0,
      CHR 0xB6, CHR 0xD0, CHR 0xB5, CHR 0xD1, CHR 0x82, CHR 0x20, CHR 0xD0, CHR 0xB2,
      CHR 0xD0, CHR 0xBE, CHR 0xD0, CHR 0xB7, CHR 0xD0, CHR 0xBD, CHR 0xD0, CHR 0xB8,
      CHR 0xD0, CHR 0xBA, CHR 0xD0, CHR 0xB0, CHR 0xD1, CHR 0x82, CHR 0xD1, CHR 0x8C,
      CHR 0x20, CHR 0xD0, CHR 0xB8, CHR 0xD0, CHR 0xB7, CHR 0x2D, CHR 0xD0, CHR 0xB7,
      CHR 0xD0, CHR 0xB0, CHR 0x20, CHR 0xD0, CHR 0xB8, CHR 0xD0, CHR 0xB7, CHR 0xD0,
      CHR 0xBC, CHR 0xD0, CHR 0xB5, CHR 0xD0, CHR 0xBD, CHR 0xD0, CHR 0xB5, CHR 0xD0,
      CHR 0xBD, CHR 0xD0, CHR 0xB8, CHR 0xD0, CHR 0xB9, CHR 0x20, CHR 0xD0, CHR 0xB2,
      CHR 0x20, CHR 0xD1, CHR 0x84, CHR 0xD0, CHR 0xBE, CHR 0xD1, CHR 0x80, CHR 0xD0,
      CHR 0xBC, CHR 0xD0, CHR 0xB0, CHR 0xD1, CHR 0x82, CHR 0xD0, CHR 0xB5] @
     '' API Apple.'' @
     [CHR 0x0A, CHR 0x0A]"

text \<open>In English: "Possible solutions:", then a line feed.\<close>

definition detailedError_solutions :: string where
  "detailedError_solutions =
     [CHR 0xD0, CHR 0x92, CHR 0xD0, CHR 0xBE, CHR 0xD0, CHR 0xB7, CHR 0xD0, CHR 0xBC,
      CHR 0xD0, CHR 0xBE, CHR 0xD0, CHR 0xB6, CHR 0xD0, CHR 0xBD, CHR 0xD1, CHR 0x8B,
      CHR 0xD0, CHR 0xB5, CHR 0x20, CHR 0xD1, CHR 0x80, CHR 0xD0, CHR 0xB5, CHR 0xD1,
      CHR 0x88, CHR 0xD0, CHR 0xB5, CHR 0xD0, CHR 0xBD, CHR 0xD0, CHR 0xB8, CHR 0xD1,
      CHR 0x8F, CHR 0x3A, CHR 0x0A]"

text \<open>In English: "1. Log out and log in again in the application", then a line feed.\<close>

definition step1 :: string where
  "step1 =
     [CHR 0x31, CHR 0x2E, CHR 0x20, CHR 0xD0, CHR 0x92, CHR 0xD1, CHR 0x8B, CHR 0xD0,
      CHR 0xB9, CHR 0xD0, CHR 0xB4, CHR 0xD0, CHR 0xB8, CHR 0xD1, CHR 0x82, CHR 0xD0,
      CHR 0xB5, CHR 0x20, CHR 0xD0, CHR 0xB8, CHR 0x20, CHR 0xD0, CHR 0xB2, CHR 0xD0,
      CHR 0xBE, CHR 0xD0, CHR 0xB9, CHR 0xD0, CHR 0xB4, CHR 0xD0, CHR 0xB8, CHR 0xD1,
      CHR 0x82, CHR 0xD0, CHR 0xB5, CHR 0x20, CHR 0xD1, CHR 0x81, CHR 0xD0, CHR 0xBD,
      CHR 0xD0, CHR 0xBE, CHR 0xD0, CHR 0xB2, CHR 0xD0, CHR 0xB0, CHR 0x20, CHR 0xD0,
      CHR 0xB2, CHR 0x20, CHR 0xD0, CHR 0xBF, CHR 0xD1, CHR 0x80, CHR 0xD0, CHR 0xB8,
      CHR 0xD0, CHR 0xBB, CHR 0xD0, CHR 0xBE, CHR 0xD0, CHR 0xB6, CHR 0xD0, CHR 0xB5,
      CHR 0xD0, CHR 0xBD, CHR 0xD0, CHR 0xB8, CHR 0xD0, CHR 0xB8, CHR 0x0A]"

text \<open>In English: "2. Revoke all existing certificates and create new ones", then a line feed.\<close>

definition step2 :: string where
  "step2 =
     [CHR 0x32, CHR 0x2E, CHR 0x20, CHR 0xD0, CHR 0x9E, CHR 0xD1, CHR 0x82, CHR 0xD0,
      CHR 0xB7, CHR 0xD0, CHR 0xBE, CHR 0xD0, CHR 0xB2, CHR 0xD0, CHR 0xB8, CHR 0xD1,
      CHR 0x82, CHR 0xD0, CHR 0xB5, CHR 0x20, CHR 0xD0, CHR 0xB2, CHR 0xD1, CHR 0x81,
      CHR 0xD0, CHR 0xB5, CHR 0x20, CHR 0xD1, CHR 0x81, CHR 0xD1, CHR 0x83, CHR 0xD1,
      CHR 0x89, CHR 0xD0, CHR 0xB5, CHR 0xD1, CHR 0x81, CHR 0xD1, CHR 0x82, CHR 0xD0,
      CHR 0xB2, CHR 0xD1, CHR 0x83, CHR 0xD1, CHR 0x8E, CHR 0xD1, CHR 0x89, CHR 0xD0,
      CHR 0xB8, CHR 0xD0, CHR 0xB5, CHR 0x20, CHR 0xD1, CHR 0x81, CHR 0xD0, CHR 0xB5,
      CHR 0xD1, CHR 0x80, CHR 0xD1, CHR 0x82, CHR 0xD0, CHR 0xB8, CHR 0xD1, CHR 0x84,
      CHR 0xD0, CHR 0xB8, CHR 0xD0, CHR 0xBA, CHR 0xD0, CHR 0xB0, CHR 0xD1, CHR 0x82,
      CHR 0xD1, CHR 0x8B, CHR 0x20, CHR 0xD0, CHR 0xB8, CHR 0x20, CHR 0xD1, CHR 0x81,
      CHR 0xD0, CHR 0xBE, CHR 0xD0, CHR 0xB7, CHR 0xD0, CHR 0xB4, CHR 0xD0, CHR 0xB0,
      CHR 0xD0, CHR 0xB9, CHR 0xD1, CHR 0x82, CHR 0xD0, CHR 0xB5, CHR 0x20, CHR 0xD0,
      CHR 0xBD, CHR 0xD0, CHR 0xBE, CHR 0xD0, CHR 0xB2, CHR 0xD1, CHR 0x8B, CHR 0xD0,
      CHR 0xB5, CHR 0x0A]"

text \<open>In English: "3. Check whether there are updates of iloader", then a line feed.\<close>

definition step3 :: string where
  "step3 =
     [CHR 0x33, CHR 0x2E, CHR 0x20, CHR 0xD0, CHR 0x9F, CHR 0xD1, CHR 0x80, CHR 0xD0,
      CHR 0xBE, CHR 0xD0, CHR 0xB2, CHR 0xD0, CHR 0xB5, CHR 0xD1, CHR 0x80, CHR 0xD1,
      CHR 0x8C, CHR 0xD1, CHR 0x82, CHR 0xD0, CHR 0xB5, CHR 0x20, CHR 0xD0, CHR 0xBD,
      CHR 0xD0, CHR 0xB0, CHR 0xD0, CHR 0xBB, CHR 0xD0, CHR 0xB8, CHR 0xD1, CHR 0x87,
      CHR 0xD0, CHR 0xB8, CHR 0xD0, CHR 0xB5, CHR 0x20, CHR 0xD0, CHR 0xBE, CHR 0xD0,
      CHR 0xB1, CHR 0xD0, CHR 0xBD, CHR 0xD0, CHR 0xBE, CHR 0xD0, CHR 0xB2, CHR 0xD0,
      CHR 0xBB, CHR 0xD0, CHR 0xB5, CHR 0xD0, CHR 0xBD, CHR 0xD0, CHR 0xB8, CHR 0xD0,
      CHR 0xB9] @
     '' iloader'' @
     [CHR 0x0A]"

text \<open>In English: "4. Report this problem to the developers", then two line feeds.\<close>

definition step4 :: string where
  "step4 =
     [CHR 0x34, CHR 0x2E, CHR 0x20, CHR 0xD0, CHR 0xA1, CHR 0xD0, CHR 0xBE, CHR 0xD0,
      CHR 0xBE, CHR 0xD0, CHR 0xB1, CHR 0xD1, CHR 0x89, CHR 0xD0, CHR 0xB8, CHR 0xD1,
      CHR 0x82, CHR 0xD0, CHR 0xB5, CHR 0x20, CHR 0xD0, CHR 0xBE, CHR 0xD0, CHR 0xB1,
      CHR 0x20, CHR 0xD1, CHR 0x8D, CHR 0xD1, CHR 0x82, CHR 0xD0, CHR 0xBE, CHR 0xD0,
      CHR 0xB9, CHR 0x20, CHR 0xD0, CHR 0xBF, CHR 0xD1, CHR 0x80, CHR 0xD0, CHR 0xBE,
      CHR 0xD0, CHR 0xB1, CHR 0xD0, CHR 0xBB, CHR 0xD0, CHR 0xB5, CHR 0xD0, CHR 0xBC,
      CHR 0xD0, CHR 0xB5, CHR 0x20, CHR 0xD1, CHR 0x80, CHR 0xD0, CHR 0xB0, CHR 0xD0,
      CHR 0xB7, CHR 0xD1, CHR 0x80, CHR 0xD0, CHR 0xB0, CHR 0xD0, CHR 0xB1, CHR 0xD0,
      CHR 0xBE, CHR 0xD1, CHR 0x82, CHR 0xD1, CHR 0x87, CHR 0xD0, CHR 0xB8, CHR 0xD0,
      CHR 0xBA, CHR 0xD0, CHR 0xB0, CHR 0xD0, CHR 0xBC, CHR 0x0A, CHR 0x0A]"

text \<open>In English: "Technical information: ".\<close>

definition detailedError_technical :: string where
  "detailedError_technical =
     [CHR 0xD0, CHR 0xA2, CHR 0xD0, CHR 0xB5, CHR 0xD1, CHR 0x85, CHR 0xD0, CHR 0xBD,
      CHR 0xD0, CHR 0xB8, CHR 0xD1, CHR 0x87, CHR 0xD0, CHR 0xB5, CHR 0xD1, CHR 0x81,
      CHR 0xD0, CHR 0xBA, CHR 0xD0, CHR 0xB0, CHR 0xD1, CHR 0x8F, CHR 0x20, CHR 0xD0,
      CHR 0xB8, CHR 0xD0, CHR 0xBD, CHR 0xD1, CHR 0x84, CHR 0xD0, CHR 0xBE, CHR 0xD1,
      CHR 0x80, CHR 0xD0, CHR 0xBC, CHR 0xD0, CHR 0xB0, CHR 0xD1, CHR 0x86, CHR 0xD0,
      CHR 0xB8, CHR 0xD1, CHR 0x8F, CHR 0x3A, CHR 0x20]"

text \<open>In English: "Could not load the certificates: ".\<close>

definition toast_error_prefix :: string where
  "toast_error_prefix =
     [CHR 0xD0, CHR 0x9D, CHR 0xD0, CHR 0xB5, CHR 0x20, CHR 0xD1, CHR 0x83, CHR 0xD0,
      CHR 0xB4, CHR 0xD0, CHR 0xB0, CHR 0xD0, CHR 0xBB, CHR 0xD0, CHR 0xBE, CHR 0xD1,
      CHR 0x81, CHR 0xD1, CHR 0x8C, CHR 0x20, CHR 0xD0, CHR 0xB7, CHR 0xD0, CHR 0xB0,
      CHR 0xD0, CHR 0xB3, CHR 0xD1, CHR 0x80, CHR 0xD1, CHR 0x83, CHR 0xD0, CHR 0xB7,
      CHR 0xD0, CHR 0xB8, CHR 0xD1, CHR 0x82, CHR 0xD1, CHR 0x8C, CHR 0x20, CHR 0xD1,
      CHR 0x81, CHR 0xD0, CHR 0xB5, CHR 0xD1, CHR 0x80, CHR 0xD1, CHR 0x82, CHR 0xD0,
      CHR 0xB8, CHR 0xD1, CHR 0x84, CHR 0xD0, CHR 0xB8, CHR 0xD0, CHR 0xBA, CHR 0xD0,
      CHR 0xB0, CHR 0xD1, CHR 0x82, CHR 0xD1, CHR 0x8B, CHR 0x3A, CHR 0x20]"

text \<open>\<open>detailedError\<close>, the concatenation of the literals and \<open>errorMsg\<close>.\<close>

definition detailedError :: "string \<Rightarrow> string" where
  "detailedError errorMsg =
     detailedError_header @ detailedError_known @ detailedError_solutions @
     step1 @ step2 @ step3 @ step4 @ detailedError_technical @ errorMsg"

subsection \<open>loadCertificates\<close>

text \<open>
  \<open>loadCertificates\<close> runs in two parts, separated by its only \<open>await\<close>. The first part is
  what a call does at once: it returns at the guard, or it sets the guard and the loading
  flag and issues the backend command. It yields the new state and the commands issued.
\<close>

definition loadCertificates :: "Certificates_state \<Rightarrow> Certificates_state \<times> command list" where
  "loadCertificates s =
     (if loadingRef s then (s, [])
      else (s\<lparr>loadingRef := True, loading := True\<rparr>, [get_certificates_cached]))"

text \<open>
  The second part runs when the command settles, with a list (\<open>Inr\<close>) or a rejection
  (\<open>Inl\<close>): the rest of the \<open>try\<close>, the \<open>catch\<close>, and the \<open>finally\<close> that every path goes
  through. It yields the new state and how the promise given to \<open>toast.promise\<close> settles.
  The list is what its type says, an array of objects, so \<open>map\<close> and \<open>filter\<close> do not throw.
\<close>

definition loadCertificates_settled ::
    "js_error + RawCertificate list \<Rightarrow> Certificates_state \<Rightarrow> Certificates_state \<times> (js_error + unit)" where
  "loadCertificates_settled r s =
     (let (s1, outcome) =
        (case r of
           Inr certs \<Rightarrow> (s\<lparr>certificates := validated certs\<rparr>, Inr ())
         | Inl error \<Rightarrow>
             (let errorMsg = String_of error in
              if includes_js errorMsg ''machineId'' \<or> includes_js errorMsg ''Parse''
                 \<or> includes_js errorMsg ''machineld''
              then (s, Inl (JsError (detailedError errorMsg)))
              else (s, Inl error)))
      in (s1\<lparr>loading := False, loadingRef := False\<rparr>, outcome))"

text \<open>The \<open>error\<close> callback of \<open>toast.promise\<close>: the text of the error toast.\<close>

definition load_toast_error :: "js_error \<Rightarrow> string" where
  "load_toast_error e =
     (let errorStr = String_of e in
      if includes_js errorStr [CHR 0x0A] then errorStr else toast_error_prefix @ errorStr)"

subsection \<open>revokeCertificate\<close>

text \<open>
  \<open>revokeCertificate\<close> issues the backend command for the serial number it is given and
  changes no state. When the command settles, \<open>promise.then(loadCertificates)\<close> calls
  \<open>loadCertificates\<close> if it succeeded and does nothing if it failed; \<open>toast.promise\<close>
  reports how the same promise settled.
\<close>

definition revokeCertificate :: "string \<Rightarrow> Certificates_state \<Rightarrow> Certificates_state \<times> command list" where
  "revokeCertificate serial s = (s, [revoke_certificate serial])"

definition revokeCertificate_settled ::
    "js_error + unit \<Rightarrow> Certificates_state \<Rightarrow> (Certificates_state \<times> command list) \<times> (js_error + unit)" where
  "revokeCertificate_settled r s =
     (case r of
        Inr u \<Rightarrow> (loadCertificates s, Inr u)
      | Inl e \<Rightarrow> ((s, []), Inl e))"

definition revoke_toast_error :: "js_error \<Rightarrow> string" where
  "revoke_toast_error e = ''Failed to revoke certificate: '' @ String_of e"

subsection \<open>Calls that overlap\<close>

text \<open>
  JavaScript runs one piece of code at a time and other code runs only while a call waits
  at an \<open>await\<close>. Calls of \<open>loadCertificates\<close> are concurrent when each enters before
  the command of an earlier one has settled: \<open>load_calls n\<close> is \<open>n\<close> such calls one after
  the other, with the commands each of them issued.
\<close>

fun load_calls :: "nat \<Rightarrow> Certificates_state \<Rightarrow> Certificates_state \<times> command list list" where
  "load_calls 0 s = (s, [])"
| "load_calls (Suc n) s =
     (let (s1, issued) = loadCertificates s;
          (s2, rest) = load_calls n s1
      in (s2, issued # rest))"

text \<open>
  Then the one command in flight settles with \<open>r\<close>. A call that issued the command owns the
  promise, whose settlement it receives (\<open>Some\<close>); a call that returned at the guard has
  no promise and receives nothing (\<open>None\<close>).
\<close>

definition concurrent_loads ::
    "nat \<Rightarrow> js_error + RawCertificate list \<Rightarrow> Certificates_state
      \<Rightarrow> Certificates_state \<times> (js_error + unit) option list" where
  "concurrent_loads n r s =
     (let (s1, issued) = load_calls n s;
          (s2, outcome) = loadCertificates_settled r s1
      in (s2, map (\<lambda>cmds. if cmds = [] then None else Some outcome) issued))"

section \<open>pages/Cleanup.tsx\<close>

record CleanupResult =
  certificatesRevoked :: nat
  appIdsDeleted :: nat
  errors :: "string list"

text \<open>The component's state: the two \<open>useState\<close> cells.\<close>

record Cleanup_state =
  loading :: bool
  result :: "CleanupResult option"

definition Cleanup_init :: Cleanup_state where
  "Cleanup_init = \<lparr>loading = False, result = None\<rparr>"

text \<open>
  \<open>performCleanup\<close> up to its \<open>await\<close>. The argument \<open>confirmed\<close> is the user's answer to
  \<open>window.confirm\<close>, which is asked only when no cleanup is loading.
\<close>

definition performCleanup :: "bool \<Rightarrow> Cleanup_state \<Rightarrow> Cleanup_state \<times> command list" where
  "performCleanup confirmed s =
     (if loading s then (s, [])
      else if \<not> confirmed then (s, [])
      else (s\<lparr>loading := True, result := None\<rparr>, [cleanup_all]))"

text \<open>
  The rest of the promise, when \<open>cleanup_all\<close> settles. A rejection leaves the \<open>await\<close> as an
  exception, so the two setters after it do not run.
\<close>

definition performCleanup_settled ::
    "js_error + CleanupResult \<Rightarrow> Cleanup_state \<Rightarrow> Cleanup_state \<times> (js_error + CleanupResult)" where
  "performCleanup_settled r s =
     (case r of
        Inr cleanupResult \<Rightarrow> (s\<lparr>result := Some cleanupResult, loading := False\<rparr>, Inr cleanupResult)
      | Inl e \<Rightarrow> (s, Inl e))"

section \<open>The backend commands\<close>

text \<open>
  The commands \<open>get_certificates_cached\<close>, \<open>revoke_certificate\<close> and \<open>cleanup_all\<close> are
  implemented in the application's backend, whose code is not among the sources read here.
  This section models them from the specification. Each runs to its end once started. What
  the signing authority would answer is an argument: \<open>Inl\<close> a failure message, \<open>Inr\<close> the
  answer. Time is in seconds.
\<close>

text \<open>Modelled from the spec: the entry of the certificate cache, which "wraps a sequence of
  Certificate plus a fetch timestamp".\<close>

record CacheEntry =
  entry_certificates :: "RawCertificate list"
  timestamp :: int

text \<open>Modelled from the spec: the time to live of a cache entry, five minutes.\<close>

definition TTL :: int where
  "TTL = 5 * 60"

text \<open>Modelled from the spec: the freshness test of the certificate cache, "an entry is fresh
  iff now - timestamp < TTL".\<close>

definition fresh :: "int \<Rightarrow> CacheEntry \<Rightarrow> bool" where
  "fresh now e \<longleftrightarrow> now - timestamp e < TTL"

text \<open>Modelled from the spec: the fetch of the certificate cache. It calls the authority
  once; "on success the cache is replaced and the timestamp reset; on failure the cache is
  left unchanged" and the error goes to the caller. The number is the count of calls to the
  authority's \<open>listCertificates\<close>.\<close>

definition CertificateCache_fetch ::
    "int \<Rightarrow> string + RawCertificate list \<Rightarrow> CacheEntry option
      \<Rightarrow> (CacheEntry option \<times> (string + RawCertificate list)) \<times> nat" where
  "CertificateCache_fetch now remote cache =
     (case remote of
        Inr certs \<Rightarrow> ((Some \<lparr>entry_certificates = certs, timestamp = now\<rparr>, Inr certs), 1)
      | Inl e \<Rightarrow> ((cache, Inl e), 1))"

text \<open>Modelled from the spec: \<open>CertificateCache.get\<close>, "if forceRefresh is false and a fresh
  CacheEntry exists, return its list immediately (no network access)", otherwise fetch.\<close>

definition CertificateCache_get ::
    "bool \<Rightarrow> int \<Rightarrow> string + RawCertificate list \<Rightarrow> CacheEntry option
      \<Rightarrow> (CacheEntry option \<times> (string + RawCertificate list)) \<times> nat" where
  "CertificateCache_get forceRefresh now remote cache =
     (case cache of
        Some e \<Rightarrow>
          if \<not> forceRefresh \<and> fresh now e then ((cache, Inr (entry_certificates e)), 0)
          else CertificateCache_fetch now remote cache
      | None \<Rightarrow> CertificateCache_fetch now remote cache)"

text \<open>Modelled from the spec: \<open>CertificateCache.invalidate\<close>. The entry is "destroyed on
  explicit invalidation", so that the "next get will re-fetch".\<close>

definition CertificateCache_invalidate :: "CacheEntry option \<Rightarrow> CacheEntry option" where
  "CertificateCache_invalidate cache = None"

text \<open>Modelled from the spec: the backend command \<open>revoke_certificate\<close>. It "issues the remote
  revoke call; on success, invalidates the cache"; "on remote failure, the cache is left
  untouched and the error propagates".\<close>

definition revoke_command :: "string + unit \<Rightarrow> CacheEntry option \<Rightarrow> CacheEntry option \<times> (string + unit)" where
  "revoke_command remote cache =
     (case remote of
        Inr u \<Rightarrow> (CertificateCache_invalidate cache, Inr u)
      | Inl e \<Rightarrow> (cache, Inl e))"

text \<open>Modelled from the spec: how the backend command \<open>cleanup_all\<close> folds the outcome of one
  sub-item into the counts and the error list: a success is counted, "every sub-item
  failure is captured as a string and appended to errors".\<close>

definition record_outcome :: "string + unit \<Rightarrow> nat \<times> string list \<Rightarrow> nat \<times> string list" where
  "record_outcome outcome acc =
     (case outcome of
        Inr u \<Rightarrow> (Suc (fst acc), snd acc)
      | Inl e \<Rightarrow> (fst acc, snd acc @ [e]))"

text \<open>Modelled from the spec: the backend command \<open>cleanup_all\<close>. \<open>unreachable\<close> is the error
  when the authority cannot be reached at all, the total failure that "yields no
  CleanupResult"; otherwise every certificate and every App ID is attempted, with the
  outcomes \<open>certs\<close> and \<open>apps\<close>, and folded into the result.\<close>

definition cleanupAll ::
    "string option \<Rightarrow> (string + unit) list \<Rightarrow> (string + unit) list \<Rightarrow> string + CleanupResult" where
  "cleanupAll unreachable certs apps =
     (case unreachable of
        Some e \<Rightarrow> Inl e
      | None \<Rightarrow>
          (let (revoked, errs) = fold record_outcome certs (0, []);
               (deleted, errs') = fold record_outcome apps (0, errs)
           in Inr \<lparr>certificatesRevoked = revoked, appIdsDeleted = deleted, errors = errs'\<rparr>))"

section \<open>The pages on the backend\<close>

text \<open>
  A command the page issues is answered by the backend and the page's second part runs on
  the answer. \<open>invoke\<close> rejects with the backend's error message, a string.
\<close>

definition rejected :: "string + 'a \<Rightarrow> js_error + 'a" where
  "rejected answer = (case answer of Inl e \<Rightarrow> Inl (JsString e) | Inr x \<Rightarrow> Inr x)"

text \<open>One load that no other call overlaps, at time \<open>now\<close>: the new state of page and cache,
  how the promise settled (\<open>None\<close> when the call returned at the guard), and the number of
  calls to the authority.\<close>

definition load ::
    "int \<Rightarrow> string + RawCertificate list \<Rightarrow> Certificates_state \<times> CacheEntry option
      \<Rightarrow> (Certificates_state \<times> CacheEntry option) \<times> (js_error + unit) option \<times> nat" where
  "load now remote app =
     (let (s1, issued) = loadCertificates (fst app) in
      if issued = [] then ((s1, snd app), None, 0)
      else
        (let ((cache', answer), calls) = CertificateCache_get False now remote (snd app);
             (s2, outcome) = loadCertificates_settled (rejected answer) s1
         in ((s2, cache'), Some outcome, calls)))"

text \<open>One revoke, up to and with the call of \<open>loadCertificates\<close> that its success triggers: the
  new state of page and cache, the commands that call issued, and how the revoke settled.\<close>

definition revoke ::
    "string \<Rightarrow> string + unit \<Rightarrow> Certificates_state \<times> CacheEntry option
      \<Rightarrow> (Certificates_state \<times> CacheEntry option) \<times> command list \<times> (js_error + unit)" where
  "revoke serial remote app =
     (let (s0, issued) = revokeCertificate serial (fst app);
          (cache', answer) = revoke_command remote (snd app);
          ((s1, reload), outcome) = revokeCertificate_settled (rejected answer) s0
      in ((s1, cache'), reload, outcome))"

text \<open>One cleanup: the new state of the page and how the promise settled (\<open>None\<close> when
  \<open>performCleanup\<close> returned before issuing the command).\<close>

definition runCleanup ::
    "bool \<Rightarrow> string option \<Rightarrow> (string + unit) list \<Rightarrow> (string + unit) list \<Rightarrow> Cleanup_state
      \<Rightarrow> Cleanup_state \<times> (js_error + CleanupResult) option" where
  "runCleanup confirmed unreachable certs apps s =
     (let (s1, issued) = performCleanup confirmed s in
      if issued = [] then (s1, None)
      else
        (let (s2, outcome) = performCleanup_settled (rejected (cleanupAll unreachable certs apps)) s1
         in (s2, Some outcome)))"

section \<open>Properties\<close>

subsection \<open>Strings and validation\<close>


lemma includes_char: "includes_js s [c] \<longleftrightarrow> c \<in> set s"
  by (induction s) auto

lemma or_default_nonempty: "d \<noteq> [] \<Longrightarrow> or_default x d \<noteq> []"
  by (simp add: or_default_def split: option.split)

lemma validated_filter_raw:
  "validated raw =
     map validate (filter (\<lambda>r. or_default (raw_certificateId r) [] \<noteq> []
                               \<and> or_default (raw_serialNumber r) [] \<noteq> []) raw)"
  by (induction raw) (simp_all add: validated_def identified_def validate_def)


lemma load_toast_detailed:
  "load_toast_error (JsError (detailedError m)) = ''Error: '' @ detailedError m"
proof -
  have "CHR 0x0A \<in> set step1"
    by (simp add: step1_def)
  then have lf: "CHR 0x0A \<in> set (detailedError m)"
    by (simp add: detailedError_def)
  then have "detailedError m \<noteq> []"
    by auto
  with lf show ?thesis
    by (simp add: load_toast_error_def includes_char)
qed

subsection \<open>Overlapping loads\<close>

lemma load_calls_in_flight: "loadingRef s \<Longrightarrow> load_calls n s = (s, replicate n [])"
  by (induction n) (simp_all add: loadCertificates_def)

lemma load_calls_first:
  "\<not> loadingRef s \<Longrightarrow>
   load_calls (Suc n) s = (fst (loadCertificates s), [get_certificates_cached] # replicate n [])"
  by (simp add: loadCertificates_def load_calls_in_flight)

text \<open>
  C1, as stated: every one of the concurrent callers receives the result of the single
  fetch. This fails. Two calls enter before the command settles and the command then fails:
  the first call's promise is rejected with the failure, the second call has returned at
  the guard and receives nothing.
\<close>

theorem concurrent_loads_second_caller:
  "snd (concurrent_loads 2 (Inl (JsString ''offline'')) Certificates_init)
     = [Some (Inl (JsString ''offline'')), None]"
  by (simp add: concurrent_loads_def numeral_2_eq_2 loadCertificates_def
      loadCertificates_settled_def Certificates_init_def)

text \<open>
  C1, amended. When no load is in flight and any number of calls of \<open>loadCertificates\<close>
  enter before the command settles, exactly one \<open>get_certificates_cached\<close> is issued, by
  the first call; no later call issues one or changes the state. When the command settles,
  the state is that of a single load, the first caller's promise settles with the outcome
  of that fetch, and each later caller has received nothing.
\<close>

theorem concurrent_loads_single_fetch:
  "\<not> loadingRef s \<Longrightarrow>
   load_calls (Suc n) s = (fst (loadCertificates s), [get_certificates_cached] # replicate n [])
   \<and> concat (snd (load_calls (Suc n) s)) = [get_certificates_cached]
   \<and> concurrent_loads (Suc n) r s =
       (fst (loadCertificates_settled r (fst (loadCertificates s))),
        Some (snd (loadCertificates_settled r (fst (loadCertificates s)))) # replicate n None)"
proof -
  assume idle: "\<not> loadingRef s"
  have calls: "load_calls (Suc n) s
      = (fst (loadCertificates s), [get_certificates_cached] # replicate n [])"
    using idle by (rule load_calls_first)
  have one: "concat (snd (load_calls (Suc n) s)) = [get_certificates_cached]"
    unfolding calls by (induction n) simp_all
  have all: "concurrent_loads (Suc n) r s =
       (fst (loadCertificates_settled r (fst (loadCertificates s))),
        Some (snd (loadCertificates_settled r (fst (loadCertificates s)))) # replicate n None)"
    unfolding concurrent_loads_def calls by (simp add: split_beta)
  from calls one all show ?thesis by simp
qed

theorem concurrent_loads_single_fetch_witness:
  "\<not> loadingRef Certificates_init
   \<and> load_calls 3 Certificates_init
       = (\<lparr>certificates = [], loading = True, loadingRef = True\<rparr>, [[get_certificates_cached], [], []])
   \<and> concurrent_loads 3 (Inr []) Certificates_init
       = (Certificates_init, [Some (Inr ()), None, None])"
  using concurrent_loads_single_fetch [of Certificates_init 2 "Inr []"]
  by (simp add: numeral_3_eq_3 numeral_2_eq_2 Certificates_init_def loadCertificates_def
      loadCertificates_settled_def validated_def)

subsection \<open>Loading\<close>

text \<open>
  C2. When the fetch delivers a raw list, the list stored by \<open>loadCertificates\<close> has no
  entry with an empty \<open>certificateId\<close> or \<open>serialNumber\<close>: it is exactly the raw entries
  that have both fields, in the order received, each validated; a missing or empty name has
  become the placeholder \<open>Unknown\<close>.
\<close>

theorem load_validated:
  "certificates (fst (loadCertificates_settled (Inr raw) s)) = validated raw
   \<and> (\<forall>c \<in> set (validated raw). certificateId c \<noteq> [] \<and> serialNumber c \<noteq> [] \<and> name c \<noteq> [])
   \<and> validated raw =
       map validate (filter (\<lambda>r. or_default (raw_certificateId r) [] \<noteq> []
                                 \<and> or_default (raw_serialNumber r) [] \<noteq> []) raw)
   \<and> subseq (validated raw) (map validate raw)
   \<and> (\<forall>r. raw_name r = None \<or> raw_name r = Some [] \<longrightarrow> name (validate r) = ''Unknown'')
   \<and> (\<forall>r n. raw_name r = Some n \<and> n \<noteq> [] \<longrightarrow> name (validate r) = n)"
proof -
  have stored: "certificates (fst (loadCertificates_settled (Inr raw) s)) = validated raw"
    by (simp add: loadCertificates_settled_def)
  have ids: "\<forall>c \<in> set (validated raw). certificateId c \<noteq> [] \<and> serialNumber c \<noteq> [] \<and> name c \<noteq> []"
    by (auto simp: validated_def identified_def validate_def or_default_nonempty)
  have order: "subseq (validated raw) (map validate raw)"
    by (simp add: validated_def)
  have names: "\<forall>r. raw_name r = None \<or> raw_name r = Some [] \<longrightarrow> name (validate r) = ''Unknown''"
    by (auto simp: validate_def or_default_def)
  have names': "\<forall>r n. raw_name r = Some n \<and> n \<noteq> [] \<longrightarrow> name (validate r) = n"
    by (auto simp: validate_def or_default_def)
  from stored ids order names names' validated_filter_raw show ?thesis by blast
qed

theorem load_validated_witness:
  "validated [\<lparr>raw_name = None, raw_certificateId = Some ''C1'', raw_serialNumber = Some ''S1'',
                 raw_machineName = Some ''mac'', raw_machineId = None\<rparr>,
              \<lparr>raw_name = Some ''dev'', raw_certificateId = Some [], raw_serialNumber = Some ''S2'',
                 raw_machineName = None, raw_machineId = None\<rparr>,
              \<lparr>raw_name = Some ''dev'', raw_certificateId = Some ''C3'', raw_serialNumber = None,
                 raw_machineName = None, raw_machineId = None\<rparr>,
              \<lparr>raw_name = Some ''ios'', raw_certificateId = Some ''C4'', raw_serialNumber = Some ''S4'',
                 raw_machineName = None, raw_machineId = Some ''M4''\<rparr>]
     = [\<lparr>name = ''Unknown'', certificateId = ''C1'', serialNumber = ''S1'',
          machineName = ''mac'', machineId = []\<rparr>,
        \<lparr>name = ''ios'', certificateId = ''C4'', serialNumber = ''S4'',
          machineName = [], machineId = ''M4''\<rparr>]"
  using load_validated [of "[\<lparr>raw_name = None, raw_certificateId = Some ''C1'', raw_serialNumber = Some ''S1'',
                 raw_machineName = Some ''mac'', raw_machineId = None\<rparr>,
              \<lparr>raw_name = Some ''dev'', raw_certificateId = Some [], raw_serialNumber = Some ''S2'',
                 raw_machineName = None, raw_machineId = None\<rparr>,
              \<lparr>raw_name = Some ''dev'', raw_certificateId = Some ''C3'', raw_serialNumber = None,
                 raw_machineName = None, raw_machineId = None\<rparr>,
              \<lparr>raw_name = Some ''ios'', raw_certificateId = Some ''C4'', raw_serialNumber = Some ''S4'',
                 raw_machineName = None, raw_machineId = Some ''M4''\<rparr>]" Certificates_init]
  by (simp add: or_default_def validate_def)



text \<open>
  C10. Whatever the command settles with, a list, a failure or a failure that is
  reclassified, the load ends with the guard and the loading flag both false, and the next
  call of \<open>loadCertificates\<close> is not stopped at the guard: it issues the command.
\<close>

theorem load_restores_guard:
  "\<not> loadingRef (fst (loadCertificates_settled r s))
   \<and> \<not> Certificates_state.loading (fst (loadCertificates_settled r s))
   \<and> snd (loadCertificates (fst (loadCertificates_settled r s))) = [get_certificates_cached]"
  by (simp add: loadCertificates_settled_def loadCertificates_def Let_def split: sum.split prod.split)

theorem load_restores_guard_witness:
  "fst (loadCertificates_settled (Inl (JsString ''Parse(machineId)''))
         \<lparr>certificates = [], loading = True, loadingRef = True\<rparr>) = Certificates_init
   \<and> snd (loadCertificates Certificates_init) = [get_certificates_cached]"
  using load_restores_guard [of "Inl (JsString ''Parse(machineId)'')"
          "\<lparr>certificates = [], loading = True, loadingRef = True\<rparr>"]
  by (simp add: loadCertificates_settled_def Certificates_init_def)

subsection \<open>Cleanup\<close>

lemma fold_record_outcome:
  "fold record_outcome outcomes (n, es)
     = (n + length (filter (\<lambda>x. \<not> isl x) outcomes), es @ map projl (filter isl outcomes))"
  by (induction outcomes arbitrary: n es) (auto simp: record_outcome_def split: sum.split)

lemma cleanupAll_reached:
  "cleanupAll None certs apps =
     Inr \<lparr>certificatesRevoked = length (filter (\<lambda>x. \<not> isl x) certs),
          appIdsDeleted = length (filter (\<lambda>x. \<not> isl x) apps),
          errors = map projl (filter isl certs) @ map projl (filter isl apps)\<rparr>"
  by (simp add: cleanupAll_def fold_record_outcome)

text \<open>
  C4. A confirmed cleanup in which the authority is reached does not fail, whatever the
  outcomes of the sub-items: its promise is fulfilled with a result, also stored in the
  page, whose counts are the numbers of certificates and App IDs that succeeded and whose
  error list has one entry for each sub-item that failed, in order. Three successes and two
  failures out of five certificates give \<open>certificatesRevoked = 3\<close> and two errors. Only
  when the authority cannot be reached is the promise rejected, and then no result is
  stored.
\<close>

theorem cleanup_partial_failure:
  "\<not> loading s \<Longrightarrow>
   (\<exists>R. runCleanup True None certs apps s = (s\<lparr>loading := False, result := Some R\<rparr>, Some (Inr R))
        \<and> certificatesRevoked R = length (filter (\<lambda>x. \<not> isl x) certs)
        \<and> appIdsDeleted R = length (filter (\<lambda>x. \<not> isl x) apps)
        \<and> errors R = map projl (filter isl certs) @ map projl (filter isl apps)
        \<and> length (errors R) = length (filter isl certs) + length (filter isl apps))
   \<and> runCleanup True (Some e) certs apps s
       = (s\<lparr>loading := True, result := None\<rparr>, Some (Inl (JsString e)))"
proof -
  assume idle: "\<not> loading s"
  have partial: "runCleanup True None certs apps s
      = (s\<lparr>loading := False,
            result := Some \<lparr>certificatesRevoked = length (filter (\<lambda>x. \<not> isl x) certs),
                             appIdsDeleted = length (filter (\<lambda>x. \<not> isl x) apps),
                             errors = map projl (filter isl certs) @ map projl (filter isl apps)\<rparr>\<rparr>,
         Some (Inr \<lparr>certificatesRevoked = length (filter (\<lambda>x. \<not> isl x) certs),
                     appIdsDeleted = length (filter (\<lambda>x. \<not> isl x) apps),
                     errors = map projl (filter isl certs) @ map projl (filter isl apps)\<rparr>))"
    using idle
    by (simp add: runCleanup_def performCleanup_def performCleanup_settled_def rejected_def
        cleanupAll_reached)
  have total: "runCleanup True (Some e) certs apps s
      = (s\<lparr>loading := True, result := None\<rparr>, Some (Inl (JsString e)))"
    using idle
    by (simp add: runCleanup_def performCleanup_def performCleanup_settled_def rejected_def
        cleanupAll_def)
  from partial total show ?thesis by simp
qed

theorem cleanup_partial_failure_witness:
  "\<not> loading Cleanup_init
   \<and> runCleanup True None [Inr (), Inl ''revoke failed: A'', Inr (), Inr (), Inl ''revoke failed: B''] []
       Cleanup_init
     = (\<lparr>loading = False,
          result = Some \<lparr>certificatesRevoked = 3, appIdsDeleted = 0,
                         errors = [''revoke failed: A'', ''revoke failed: B'']\<rparr>\<rparr>,
        Some (Inr \<lparr>certificatesRevoked = 3, appIdsDeleted = 0,
                    errors = [''revoke failed: A'', ''revoke failed: B'']\<rparr>))
   \<and> runCleanup True (Some ''unreachable'') [] [] Cleanup_init
     = (\<lparr>loading = True, result = None\<rparr>, Some (Inl (JsString ''unreachable'')))"
  using cleanup_partial_failure [of Cleanup_init
      "[Inr (), Inl ''revoke failed: A'', Inr (), Inr (), Inl ''revoke failed: B'']" "[]" "''unreachable''"]
    cleanup_partial_failure [of Cleanup_init "[]" "[]" "''unreachable''"]
  by (auto simp: Cleanup_init_def)

text \<open>
  C8. A confirmed cleanup when there are no certificates and no App IDs does not fail: its
  promise is fulfilled with \<open>certificatesRevoked = 0\<close>, \<open>appIdsDeleted = 0\<close> and no errors,
  and that result is stored.
\<close>

theorem cleanup_of_nothing:
  "\<not> loading s \<Longrightarrow>
   runCleanup True None [] [] s
     = (s\<lparr>loading := False,
           result := Some \<lparr>certificatesRevoked = 0, appIdsDeleted = 0, errors = []\<rparr>\<rparr>,
        Some (Inr \<lparr>certificatesRevoked = 0, appIdsDeleted = 0, errors = []\<rparr>))"
  by (simp add: runCleanup_def performCleanup_def performCleanup_settled_def rejected_def
      cleanupAll_def)

theorem cleanup_of_nothing_witness:
  "\<not> loading Cleanup_init
   \<and> runCleanup True None [] [] Cleanup_init
     = (\<lparr>loading = False,
          result = Some \<lparr>certificatesRevoked = 0, appIdsDeleted = 0, errors = []\<rparr>\<rparr>,
        Some (Inr \<lparr>certificatesRevoked = 0, appIdsDeleted = 0, errors = []\<rparr>))"
  using cleanup_of_nothing [of Cleanup_init]
  by (simp add: Cleanup_init_def)

text \<open>
  C9. When a cleanup is loading, or the user declines the confirmation, \<open>performCleanup\<close>
  issues no command and leaves the stored result and the loading flag as they were.
  \<open>cleanup_all\<close> is issued exactly when no cleanup is loading and the user has confirmed.
\<close>

theorem cleanup_needs_confirmation:
  "(loading s \<or> \<not> confirmed \<longrightarrow> performCleanup confirmed s = (s, []))
   \<and> (snd (performCleanup confirmed s) \<noteq> [] \<longleftrightarrow> confirmed \<and> \<not> loading s)
   \<and> (loading s \<or> \<not> confirmed \<longrightarrow> runCleanup confirmed unreachable certs apps s = (s, None))"
  by (simp add: performCleanup_def runCleanup_def)

theorem cleanup_needs_confirmation_witness:
  "performCleanup False Cleanup_init = (Cleanup_init, [])
   \<and> performCleanup True (Cleanup_init\<lparr>loading := True\<rparr>) = (Cleanup_init\<lparr>loading := True\<rparr>, [])
   \<and> snd (performCleanup True Cleanup_init) \<noteq> []"
  using cleanup_needs_confirmation [of Cleanup_init False]
        cleanup_needs_confirmation [of "Cleanup_init\<lparr>loading := True\<rparr>" True]
        cleanup_needs_confirmation [of Cleanup_init True]
  by (simp add: Cleanup_init_def)

subsection \<open>Revoking\<close>

lemma revoke_success:
  "revoke serial (Inr ()) (s, cache) = ((fst (loadCertificates s), None), snd (loadCertificates s), Inr ())"
  by (simp add: revoke_def revokeCertificate_def revoke_command_def rejected_def
      revokeCertificate_settled_def CertificateCache_invalidate_def split_beta)

lemma load_idle:
  "\<not> loadingRef s \<Longrightarrow>
   load now remote (s, cache) =
     ((fst (loadCertificates_settled (rejected (snd (fst (CertificateCache_get False now remote cache))))
              (s\<lparr>loadingRef := True, Certificates_state.loading := True\<rparr>)),
       fst (fst (CertificateCache_get False now remote cache))),
      Some (snd (loadCertificates_settled (rejected (snd (fst (CertificateCache_get False now remote cache))))
              (s\<lparr>loadingRef := True, Certificates_state.loading := True\<rparr>))),
      snd (CertificateCache_get False now remote cache))"
  by (simp add: load_def loadCertificates_def split_beta)

text \<open>
  C5, as stated: every successful revoke triggers an immediate reload. This fails when the
  revoke succeeds while a load is in flight: the call of \<open>loadCertificates\<close> returns at the
  guard, so no command is issued, although the cache has been invalidated.
\<close>

theorem revoke_during_load_no_reload:
  "revoke ''S1'' (Inr ())
     (\<lparr>certificates = [], loading = True, loadingRef = True\<rparr>,
      Some \<lparr>entry_certificates = [], timestamp = 0\<rparr>)
   = ((\<lparr>certificates = [], loading = True, loadingRef = True\<rparr>, None), [], Inr ())"
  by (simp add: revoke_def revokeCertificate_def revoke_command_def rejected_def
      revokeCertificate_settled_def loadCertificates_def CertificateCache_invalidate_def)

text \<open>
  C5, amended. After every successful revoke the cache is invalidated, so the next
  \<open>get_certificates_cached\<close> asks the authority, at whatever time it comes, and answers
  with what the authority returns, not with the snapshot cached before the revoke; so does
  the next load. The reload is started at once, through \<open>get_certificates_cached\<close>, when
  no load is in flight; when one is in flight the revoke starts no reload and leaves the
  page as it is.
\<close>

theorem revoke_success_invalidates:
  "snd (fst (revoke serial (Inr ()) (s, cache))) = None
   \<and> snd (snd (revoke serial (Inr ()) (s, cache))) = Inr ()
   \<and> (\<not> loadingRef s \<longrightarrow>
        revoke serial (Inr ()) (s, cache)
          = ((s\<lparr>loadingRef := True, Certificates_state.loading := True\<rparr>, None), [get_certificates_cached], Inr ()))
   \<and> (loadingRef s \<longrightarrow> revoke serial (Inr ()) (s, cache) = ((s, None), [], Inr ()))
   \<and> CertificateCache_get False now remote (snd (fst (revoke serial (Inr ()) (s, cache))))
        = ((case remote of Inr certs \<Rightarrow> Some \<lparr>entry_certificates = certs, timestamp = now\<rparr>
                         | Inl m \<Rightarrow> None, remote), 1)
   \<and> (\<not> loadingRef s' \<longrightarrow>
        snd (snd (load now remote (s', snd (fst (revoke serial (Inr ()) (s, cache)))))) = 1)"
  by (simp add: revoke_success load_idle loadCertificates_def CertificateCache_get_def
      CertificateCache_fetch_def split: sum.split)

theorem revoke_success_invalidates_witness:
  "\<not> loadingRef Certificates_init
   \<and> revoke ''S1'' (Inr ()) (Certificates_init, Some \<lparr>entry_certificates = [], timestamp = 0\<rparr>)
       = ((\<lparr>certificates = [], loading = True, loadingRef = True\<rparr>, None),
          [get_certificates_cached], Inr ())
   \<and> loadingRef \<lparr>certificates = [], loading = True, loadingRef = True\<rparr>
   \<and> revoke ''S1'' (Inr ())
        (\<lparr>certificates = [], loading = True, loadingRef = True\<rparr>,
         Some \<lparr>entry_certificates = [], timestamp = 0\<rparr>)
       = ((\<lparr>certificates = [], loading = True, loadingRef = True\<rparr>, None), [], Inr ())
   \<and> snd (snd (load 1 (Inr [])
        (Certificates_init,
         snd (fst (revoke ''S1'' (Inr ())
                     (Certificates_init, Some \<lparr>entry_certificates = [], timestamp = 0\<rparr>)))))) = 1"
  using revoke_success_invalidates [of "''S1''" Certificates_init
          "Some \<lparr>entry_certificates = [], timestamp = 0\<rparr>" 1 "Inr []" Certificates_init]
        revoke_success_invalidates [of "''S1''" "\<lparr>certificates = [], loading = True, loadingRef = True\<rparr>"
          "Some \<lparr>entry_certificates = [], timestamp = 0\<rparr>" 1 "Inr []" Certificates_init]
  by (simp add: Certificates_init_def revoke_success)

text \<open>
  C6. A revoke that fails changes neither the page's state, its certificate list included,
  nor the cache, starts no reload, and its promise is rejected with the authority's error,
  which the toast shows. Issuing the revoke does not change the page's state either: no
  certificate is removed before the authority has answered.
\<close>

theorem revoke_failure_changes_nothing:
  "revoke serial (Inl e) (s, cache) = ((s, cache), [], Inl (JsString e))
   \<and> fst (revokeCertificate serial s) = s
   \<and> revokeCertificate_settled (Inl err) s = ((s, []), Inl err)
   \<and> revoke_toast_error (JsString e) = ''Failed to revoke certificate: '' @ e"
  by (simp add: revoke_def revokeCertificate_def revoke_command_def rejected_def
      revokeCertificate_settled_def revoke_toast_error_def)

theorem revoke_failure_changes_nothing_witness:
  "revoke ''S1'' (Inl ''denied'')
     (Certificates_init, Some \<lparr>entry_certificates = [], timestamp = 0\<rparr>)
   = ((Certificates_init, Some \<lparr>entry_certificates = [], timestamp = 0\<rparr>),
      [], Inl (JsString ''denied''))"
  using revoke_failure_changes_nothing [of "''S1''" "''denied''" Certificates_init
          "Some \<lparr>entry_certificates = [], timestamp = 0\<rparr>"]
  by simp

subsection \<open>The cache\<close>

lemma load_cached:
  "\<not> loadingRef s \<Longrightarrow> fresh now e \<Longrightarrow>
   load now remote (s, Some e)
     = ((s\<lparr>certificates := validated (entry_certificates e), Certificates_state.loading := False, loadingRef := False\<rparr>,
         Some e), Some (Inr ()), 0)"
  by (simp add: load_idle CertificateCache_get_def rejected_def loadCertificates_settled_def)

lemma load_fetches:
  "\<not> loadingRef s \<Longrightarrow> cache = None \<or> (\<exists>e. cache = Some e \<and> \<not> fresh now e) \<Longrightarrow>
   load now (Inr certs) (s, cache)
     = ((s\<lparr>certificates := validated certs, Certificates_state.loading := False, loadingRef := False\<rparr>,
         Some \<lparr>entry_certificates = certs, timestamp = now\<rparr>), Some (Inr ()), 1)"
  by (auto simp: load_idle CertificateCache_get_def CertificateCache_fetch_def rejected_def
      loadCertificates_settled_def)

lemma get_cached_entry:
  "CertificateCache_get False now remote (Some e)
     = (if now - timestamp e < 5 * 60 then ((Some e, Inr (entry_certificates e)), 0)
        else ((case remote of
                 Inr cs \<Rightarrow> Some \<lparr>entry_certificates = cs, timestamp = now\<rparr>
               | Inl m \<Rightarrow> Some e, remote), 1))"
  by (simp add: CertificateCache_get_def CertificateCache_fetch_def fresh_def TTL_def
      split: sum.split)

lemma load_fetch_fails:
  "\<not> loadingRef s \<Longrightarrow> cache = None \<or> (\<exists>e. cache = Some e \<and> \<not> fresh now e) \<Longrightarrow>
   load now (Inl m) (s, cache)
     = ((s\<lparr>Certificates_state.loading := False, loadingRef := False\<rparr>, cache),
        Some (if includes_js m ''machineId'' \<or> includes_js m ''Parse'' \<or> includes_js m ''machineld''
              then Inl (JsError (detailedError m)) else Inl (JsString m)), 1)"
  by (auto simp: load_idle CertificateCache_get_def CertificateCache_fetch_def rejected_def
      loadCertificates_settled_def)

text \<open>
  C7. A cache entry is fresh iff \<open>now - timestamp\<close> is less than five minutes. A load that
  finds a fresh entry makes no call to the authority and shows the cached list. A stale
  entry is never served: the cache answers a get that finds one with what the authority
  answers, after one call, and so a load that finds one either shows the list the authority
  returns and caches it, or, when the authority fails, fails with that failure, shows no
  new list and leaves the entry as it was. In the scenario, the load at 0 s fetches, the
  load at 200 s is served from the cache with no call, and the load at 310 s fetches again,
  whether the authority then answers or fails.
\<close>

theorem cache_five_minutes:
  "(fresh now e \<longleftrightarrow> now - timestamp e < 5 * 60)
   \<and> (\<not> loadingRef s \<longrightarrow>
        snd (snd (load now remote (s, Some e))) = (if now - timestamp e < 5 * 60 then 0 else 1))
   \<and> (\<not> loadingRef s \<and> now - timestamp e < 5 * 60 \<longrightarrow>
        certificates (fst (fst (load now remote (s, Some e)))) = validated (entry_certificates e))
   \<and> (\<not> loadingRef s \<and> \<not> now - timestamp e < 5 * 60 \<longrightarrow>
        certificates (fst (fst (load now (Inr certs') (s, Some e)))) = validated certs')
   \<and> load 0 (Inr certs) (Certificates_init, None)
       = ((Certificates_init\<lparr>certificates := validated certs\<rparr>,
           Some \<lparr>entry_certificates = certs, timestamp = 0\<rparr>), Some (Inr ()), 1)
   \<and> load 200 remote (fst (load 0 (Inr certs) (Certificates_init, None)))
       = ((Certificates_init\<lparr>certificates := validated certs\<rparr>,
           Some \<lparr>entry_certificates = certs, timestamp = 0\<rparr>), Some (Inr ()), 0)
   \<and> load 310 (Inr certs')
        (fst (load 200 remote (fst (load 0 (Inr certs) (Certificates_init, None)))))
       = ((Certificates_init\<lparr>certificates := validated certs'\<rparr>,
           Some \<lparr>entry_certificates = certs', timestamp = 310\<rparr>), Some (Inr ()), 1)
   \<and> CertificateCache_get False now remote (Some e)
       = (if now - timestamp e < 5 * 60 then ((Some e, Inr (entry_certificates e)), 0)
          else ((case remote of
                   Inr cs \<Rightarrow> Some \<lparr>entry_certificates = cs, timestamp = now\<rparr>
                 | Inl m \<Rightarrow> Some e, remote), 1))
   \<and> (\<not> loadingRef s \<and> \<not> now - timestamp e < 5 * 60 \<longrightarrow>
        load now (Inr certs') (s, Some e)
          = ((s\<lparr>certificates := validated certs', Certificates_state.loading := False,
                 loadingRef := False\<rparr>,
              Some \<lparr>entry_certificates = certs', timestamp = now\<rparr>), Some (Inr ()), 1))
   \<and> (\<not> loadingRef s \<and> \<not> now - timestamp e < 5 * 60 \<longrightarrow>
        load now (Inl failure) (s, Some e)
          = ((s\<lparr>Certificates_state.loading := False, loadingRef := False\<rparr>, Some e),
             Some (if includes_js failure ''machineId'' \<or> includes_js failure ''Parse''
                      \<or> includes_js failure ''machineld''
                   then Inl (JsError (detailedError failure)) else Inl (JsString failure)), 1))
   \<and> load 310 (Inl failure)
        (fst (load 200 remote (fst (load 0 (Inr certs) (Certificates_init, None)))))
       = ((Certificates_init\<lparr>certificates := validated certs\<rparr>,
           Some \<lparr>entry_certificates = certs, timestamp = 0\<rparr>),
          Some (if includes_js failure ''machineId'' \<or> includes_js failure ''Parse''
                   \<or> includes_js failure ''machineld''
                then Inl (JsError (detailedError failure)) else Inl (JsString failure)), 1)"
proof -
  have iff: "fresh now e \<longleftrightarrow> now - timestamp e < 5 * 60"
    by (simp add: fresh_def TTL_def)
  have calls: "\<not> loadingRef s \<longrightarrow>
        snd (snd (load now remote (s, Some e))) = (if now - timestamp e < 5 * 60 then 0 else 1)"
    by (simp add: load_idle CertificateCache_get_def CertificateCache_fetch_def fresh_def TTL_def
        split: sum.split)
  have served: "\<not> loadingRef s \<and> now - timestamp e < 5 * 60 \<longrightarrow>
        certificates (fst (fst (load now remote (s, Some e)))) = validated (entry_certificates e)"
    by (simp add: load_cached fresh_def TTL_def)
  have refetched: "\<not> loadingRef s \<and> \<not> now - timestamp e < 5 * 60 \<longrightarrow>
        certificates (fst (fst (load now (Inr certs') (s, Some e)))) = validated certs'"
    by (simp add: load_fetches fresh_def TTL_def)
  have idle: "\<not> loadingRef Certificates_init"
    by (simp add: Certificates_init_def)
  have same: "Certificates_init\<lparr>certificates := cs, Certificates_state.loading := False, loadingRef := False\<rparr>
      = Certificates_init\<lparr>certificates := cs\<rparr>" for cs
    by (simp add: Certificates_init_def)
  have idle': "\<not> loadingRef (Certificates_init\<lparr>certificates := cs\<rparr>)" for cs
    by (simp add: Certificates_init_def)
  have t0: "load 0 (Inr certs) (Certificates_init, None)
       = ((Certificates_init\<lparr>certificates := validated certs\<rparr>,
           Some \<lparr>entry_certificates = certs, timestamp = 0\<rparr>), Some (Inr ()), 1)"
    using load_fetches [OF idle, of None 0 certs] by (simp add: same)
  have t200: "load 200 remote (fst (load 0 (Inr certs) (Certificates_init, None)))
       = ((Certificates_init\<lparr>certificates := validated certs\<rparr>,
           Some \<lparr>entry_certificates = certs, timestamp = 0\<rparr>), Some (Inr ()), 0)"
    unfolding t0 using load_cached [OF idle', of 200 "\<lparr>entry_certificates = certs, timestamp = 0\<rparr>"]
    by (simp add: fresh_def TTL_def Certificates_init_def)
  have t310: "load 310 (Inr certs')
        (fst (load 200 remote (fst (load 0 (Inr certs) (Certificates_init, None)))))
       = ((Certificates_init\<lparr>certificates := validated certs'\<rparr>,
           Some \<lparr>entry_certificates = certs', timestamp = 310\<rparr>), Some (Inr ()), 1)"
    unfolding t200 using load_fetches [OF idle', of "Some \<lparr>entry_certificates = certs, timestamp = 0\<rparr>" 310]
    by (simp add: fresh_def TTL_def Certificates_init_def)
  have stale_ok: "\<not> loadingRef s \<and> \<not> now - timestamp e < 5 * 60 \<longrightarrow>
        load now (Inr certs') (s, Some e)
          = ((s\<lparr>certificates := validated certs', Certificates_state.loading := False,
                 loadingRef := False\<rparr>,
              Some \<lparr>entry_certificates = certs', timestamp = now\<rparr>), Some (Inr ()), 1)"
    by (simp add: load_fetches fresh_def TTL_def)
  have stale_fails: "\<not> loadingRef s \<and> \<not> now - timestamp e < 5 * 60 \<longrightarrow>
        load now (Inl failure) (s, Some e)
          = ((s\<lparr>Certificates_state.loading := False, loadingRef := False\<rparr>, Some e),
             Some (if includes_js failure ''machineId'' \<or> includes_js failure ''Parse''
                      \<or> includes_js failure ''machineld''
                   then Inl (JsError (detailedError failure)) else Inl (JsString failure)), 1)"
    by (simp add: load_fetch_fails fresh_def TTL_def)
  have t310_fails: "load 310 (Inl failure)
        (fst (load 200 remote (fst (load 0 (Inr certs) (Certificates_init, None)))))
       = ((Certificates_init\<lparr>certificates := validated certs\<rparr>,
           Some \<lparr>entry_certificates = certs, timestamp = 0\<rparr>),
          Some (if includes_js failure ''machineId'' \<or> includes_js failure ''Parse''
                   \<or> includes_js failure ''machineld''
                then Inl (JsError (detailedError failure)) else Inl (JsString failure)), 1)"
    unfolding t200
    using load_fetch_fails [OF idle', of "Some \<lparr>entry_certificates = certs, timestamp = 0\<rparr>" 310]
    by (simp add: fresh_def TTL_def Certificates_init_def)
  note cache = get_cached_entry [of now remote e]
  from iff calls served refetched t0 t200 t310 cache stale_ok stale_fails t310_fails
  show ?thesis by blast
qed

theorem cache_five_minutes_witness:
  "\<not> loadingRef Certificates_init
   \<and> snd (snd (load 200 (Inl ''unreachable'')
        (Certificates_init, Some \<lparr>entry_certificates = [], timestamp = 0\<rparr>))) = 0
   \<and> snd (snd (load 310 (Inl ''unreachable'')
        (Certificates_init, Some \<lparr>entry_certificates = [], timestamp = 0\<rparr>))) = 1
   \<and> snd (snd (load 300 (Inl ''unreachable'')
        (Certificates_init, Some \<lparr>entry_certificates = [], timestamp = 0\<rparr>))) = 1
   \<and> \<not> (310 - timestamp \<lparr>entry_certificates =
            [\<lparr>raw_name = Some ''dev'', raw_certificateId = Some ''C1'',
              raw_serialNumber = Some ''S1'', raw_machineName = None, raw_machineId = None\<rparr>],
          timestamp = 0\<rparr> < 5 * 60)
   \<and> load 310 (Inl ''unreachable'')
        (Certificates_init,
         Some \<lparr>entry_certificates =
            [\<lparr>raw_name = Some ''dev'', raw_certificateId = Some ''C1'',
              raw_serialNumber = Some ''S1'', raw_machineName = None, raw_machineId = None\<rparr>],
          timestamp = 0\<rparr>)
       = ((Certificates_init,
           Some \<lparr>entry_certificates =
              [\<lparr>raw_name = Some ''dev'', raw_certificateId = Some ''C1'',
                raw_serialNumber = Some ''S1'', raw_machineName = None, raw_machineId = None\<rparr>],
            timestamp = 0\<rparr>),
          Some (Inl (JsString ''unreachable'')), 1)
   \<and> load 200 (Inl ''unreachable'')
        (Certificates_init,
         Some \<lparr>entry_certificates =
            [\<lparr>raw_name = Some ''dev'', raw_certificateId = Some ''C1'',
              raw_serialNumber = Some ''S1'', raw_machineName = None, raw_machineId = None\<rparr>],
          timestamp = 0\<rparr>)
       = ((Certificates_init\<lparr>certificates :=
              [\<lparr>name = ''dev'', certificateId = ''C1'', serialNumber = ''S1'',
                machineName = [], machineId = []\<rparr>]\<rparr>,
           Some \<lparr>entry_certificates =
              [\<lparr>raw_name = Some ''dev'', raw_certificateId = Some ''C1'',
                raw_serialNumber = Some ''S1'', raw_machineName = None, raw_machineId = None\<rparr>],
            timestamp = 0\<rparr>),
          Some (Inr ()), 0)"
proof -
  let ?raw = "[\<lparr>raw_name = Some ''dev'', raw_certificateId = Some ''C1'',
              raw_serialNumber = Some ''S1'', raw_machineName = None, raw_machineId = None\<rparr>]"
  have idle: "\<not> loadingRef Certificates_init"
    by (simp add: Certificates_init_def)
  have old: "snd (snd (load 200 (Inl ''unreachable'')
        (Certificates_init, Some \<lparr>entry_certificates = [], timestamp = 0\<rparr>))) = 0
   \<and> snd (snd (load 310 (Inl ''unreachable'')
        (Certificates_init, Some \<lparr>entry_certificates = [], timestamp = 0\<rparr>))) = 1
   \<and> snd (snd (load 300 (Inl ''unreachable'')
        (Certificates_init, Some \<lparr>entry_certificates = [], timestamp = 0\<rparr>))) = 1"
    using idle
      cache_five_minutes [where now = 200 and e = "\<lparr>entry_certificates = [], timestamp = 0\<rparr>"
        and s = Certificates_init and remote = "Inl ''unreachable''"]
      cache_five_minutes [where now = 310 and e = "\<lparr>entry_certificates = [], timestamp = 0\<rparr>"
        and s = Certificates_init and remote = "Inl ''unreachable''"]
      cache_five_minutes [where now = 300 and e = "\<lparr>entry_certificates = [], timestamp = 0\<rparr>"
        and s = Certificates_init and remote = "Inl ''unreachable''"]
    by simp
  have stale: "load 310 (Inl ''unreachable'')
        (Certificates_init, Some \<lparr>entry_certificates = ?raw, timestamp = 0\<rparr>)
       = ((Certificates_init, Some \<lparr>entry_certificates = ?raw, timestamp = 0\<rparr>),
          Some (Inl (JsString ''unreachable'')), 1)"
    using idle
      cache_five_minutes [where now = 310 and e = "\<lparr>entry_certificates = ?raw, timestamp = 0\<rparr>"
        and s = Certificates_init and failure = "''unreachable''"]
    by (simp add: Certificates_init_def)
  have cached: "load 200 (Inl ''unreachable'')
        (Certificates_init, Some \<lparr>entry_certificates = ?raw, timestamp = 0\<rparr>)
       = ((Certificates_init\<lparr>certificates :=
              [\<lparr>name = ''dev'', certificateId = ''C1'', serialNumber = ''S1'',
                machineName = [], machineId = []\<rparr>]\<rparr>,
           Some \<lparr>entry_certificates = ?raw, timestamp = 0\<rparr>), Some (Inr ()), 0)"
    using idle load_cached [of Certificates_init 200 "\<lparr>entry_certificates = ?raw, timestamp = 0\<rparr>"
        "Inl ''unreachable''"]
    by (simp add: Certificates_init_def fresh_def TTL_def validated_def validate_def
        identified_def or_default_def)
  from idle old stale cached show ?thesis by simp
qed

end
